theory Spec2Isabelle
  imports Main "HOL-Library.Sublist"
begin

section \<open>Club task management: tables, hierarchy, authentication, task updates\<close>

text \<open>
  A shallow embedding of \<^verbatim>\<open>src/app1.py\<close>. The program keeps two tables (pandas data
  frames read from and written to one Excel workbook): \<^verbatim>\<open>Members\<close> and \<^verbatim>\<open>Tasks\<close>.
  Every function below is the translation of the source function of the same name; the
  line numbers in the comments are those of \<^verbatim>\<open>src/app1.py\<close>.
\<close>

subsection \<open>Cells and data frames\<close>

text \<open>
  A cell of a data frame holds a string, an integer, or pandas' missing value \<^verbatim>\<open>NaN\<close>
  (what an empty spreadsheet cell is read as). Strings are lists of characters, one
  \<^typ>\<open>char\<close> per code point below 256. Numbers with a fractional part and date cells
  are not represented; whether an integer is held as an integer or as a float is a
  matter of its column, see \<open>float64\<close> below.
\<close>

datatype cell = Str string | Num int | NaN

text \<open>
  Python's \<^verbatim>\<open>==\<close> on two such values, as pandas applies it element by element:
  \<^verbatim>\<open>NaN\<close> is equal to nothing, not even to itself; a string never equals a number.
\<close>

definition py_eq :: "cell \<Rightarrow> cell \<Rightarrow> bool" where
  "py_eq a b = (a \<noteq> NaN \<and> b \<noteq> NaN \<and> a = b)"

text \<open>
  \<^verbatim>\<open>Series.isin(values)\<close>: membership in the list of values. Unlike \<^verbatim>\<open>==\<close>, pandas'
  \<^verbatim>\<open>isin\<close> lets a missing value match a missing value.
\<close>

definition isin :: "cell \<Rightarrow> cell list \<Rightarrow> bool" where
  "isin v vs = (v \<in> set vs)"

text \<open>
  A data frame: its column labels, in order, and its rows, in order. A row gives the
  cell under each label; only the labels in \<open>columns\<close> are columns of the frame, and
  no function below reads a row at any other label.
\<close>

type_synonym row = "string \<Rightarrow> cell"

record dataframe =
  columns :: "string list"
  rows :: "row list"

datatype exn =
    KeyError     \<comment> \<open>a column that the frame does not have\<close>
  | IndexError   \<comment> \<open>\<^verbatim>\<open>iloc[0]\<close> on no rows\<close>
  | ValueError   \<comment> \<open>\<^verbatim>\<open>astype(int)\<close> on an infinity (pandas' \<^verbatim>\<open>IntCastingNaNError\<close>)\<close>

text \<open>\<^verbatim>\<open>df.empty\<close>: true when either axis has length zero.\<close>

definition df_empty :: "dataframe \<Rightarrow> bool" where
  "df_empty df = (rows df = [] \<or> columns df = [])"

text \<open>\<^verbatim>\<open>df[mask]\<close>: the rows at which the mask holds, in their order; same columns.\<close>

definition select :: "(row \<Rightarrow> bool) \<Rightarrow> dataframe \<Rightarrow> dataframe" where
  "select keep df = df\<lparr>rows := filter keep (rows df)\<rparr>"

text \<open>\<^verbatim>\<open>df[c].tolist()\<close>: the cells of column \<open>c\<close>, or \<^verbatim>\<open>KeyError\<close> without that column.\<close>

definition tolist :: "dataframe \<Rightarrow> string \<Rightarrow> exn + cell list" where
  "tolist df c = (if c \<in> set (columns df) then Inr (map (\<lambda>r. r c) (rows df)) else Inl KeyError)"

subsection \<open>The hierarchy: \<^verbatim>\<open>get_subordinates\<close> (lines 57--98)\<close>

text \<open>
  The body of the \<^verbatim>\<open>try\<close> block (lines 63--96). \<^verbatim>\<open>members_df["Name"]\<close>,
  \<^verbatim>\<open>member_row["Role"]\<close> and the column reads of each branch raise \<^verbatim>\<open>KeyError\<close>
  when the column is missing; \<^verbatim>\<open>iloc[0]\<close> is the first matching row, which exists
  because the empty case has returned before.
\<close>

definition get_subordinates_try :: "cell \<Rightarrow> dataframe \<Rightarrow> exn + cell list" where
  "get_subordinates_try member_name members_df =
    (if ''Name'' \<notin> set (columns members_df) then Inl KeyError
     else
       (case rows (select (\<lambda>r. py_eq (r ''Name'') member_name) members_df) of
         [] \<Rightarrow> Inr []
       | member_row # _ \<Rightarrow>
           if ''Role'' \<notin> set (columns members_df) then Inl KeyError
           else
             let member_role = member_row ''Role'' in
             if member_role = Str ''Core Head'' then
               let allowed_roles = [Str ''Domain Head'', Str ''Core Head''] in
               tolist (select (\<lambda>r. isin (r ''Role'') allowed_roles) members_df) ''Name''
             else if member_role = Str ''Domain Head'' then
               if ''Domain'' \<in> set (columns members_df) then
                 let domain = member_row ''Domain'' in
                 tolist
                   (select
                     (\<lambda>r. py_eq (r ''Role'') (Str ''Associate Head'') \<and> py_eq (r ''Domain'') domain)
                     members_df)
                   ''Name''
               else
                 tolist (select (\<lambda>r. py_eq (r ''Role'') (Str ''Associate Head'')) members_df)
                   ''Name''
             else if member_role = Str ''Associate Head'' then
               if ''ReportsTo'' \<in> set (columns members_df) then
                 tolist
                   (select
                     (\<lambda>r. py_eq (r ''Role'') (Str ''Junior Head'')
                        \<and> py_eq (r ''ReportsTo'') member_name)
                     members_df)
                   ''Name''
               else
                 tolist (select (\<lambda>r. py_eq (r ''Role'') (Str ''Junior Head'')) members_df)
                   ''Name''
             else Inr []))"

text \<open>
  The whole function: the early return on an empty table (lines 59--60), and the
  handler \<^verbatim>\<open>except Exception: return []\<close> (lines 97--98) around the body. The result
  is a sum so that a raise would be visible as \<open>Inl\<close>.
\<close>

definition get_subordinates :: "cell \<Rightarrow> dataframe \<Rightarrow> exn + cell list" where
  "get_subordinates member_name members_df =
    (if df_empty members_df then Inr []
     else
       (case get_subordinates_try member_name members_df of
         Inl e \<Rightarrow> Inr []
       | Inr names \<Rightarrow> Inr names))"

subsection \<open>Python strings\<close>

text \<open>
  \<^verbatim>\<open>str.isspace\<close> on one character, for the code points below 256: tab to carriage
  return, the four separators 28--31, space, next-line (133) and no-break space (160).
\<close>

definition py_isspace :: "char \<Rightarrow> bool" where
  "py_isspace c =
    (let n = (of_char c :: nat)
     in (9 \<le> n \<and> n \<le> 13) \<or> (28 \<le> n \<and> n \<le> 32) \<or> n = 133 \<or> n = 160)"

text \<open>\<^verbatim>\<open>s.strip()\<close>: whitespace removed from both ends.\<close>

definition py_strip :: "string \<Rightarrow> string" where
  "py_strip s = rev (dropWhile py_isspace (rev (dropWhile py_isspace s)))"

text \<open>
  \<^verbatim>\<open>s.lower()\<close> for code points below 256: the ASCII capitals and the Latin-1 capitals
  (192--222 but the multiplication sign 215) move up by 32.
\<close>

definition py_lower_char :: "char \<Rightarrow> char" where
  "py_lower_char c =
    (let n = (of_char c :: nat)
     in if (65 \<le> n \<and> n \<le> 90) \<or> (192 \<le> n \<and> n \<le> 222 \<and> n \<noteq> 215) then char_of (n + 32) else c)"

definition py_lower :: "string \<Rightarrow> string" where
  "py_lower s = map py_lower_char s"

text \<open>\<^verbatim>\<open>str(n)\<close> for an integer: its decimal digits, with a minus sign when negative.\<close>

function str_nat :: "nat \<Rightarrow> string" where
  "str_nat n = (if n < 10 then [char_of (48 + n)] else str_nat (n div 10) @ [char_of (48 + n mod 10)])"
  by pat_completeness auto
termination
  by (relation "measure id") auto

definition str_int :: "int \<Rightarrow> string" where
  "str_int i = (if i < 0 then CHR ''-'' # str_nat (nat (- i)) else str_nat (nat i))"

text \<open>
  The type of a column as pandas reads it from a sheet: a column with a text cell holds
  Python objects, and an integer in it stays an integer; a column of numbers and blanks
  with at least one blank is \<^verbatim>\<open>float64\<close>, and an integer in it is a float; a column
  of integers only is \<^verbatim>\<open>int64\<close>.
\<close>

definition float64 :: "cell list \<Rightarrow> bool" where
  "float64 col =
    (NaN \<in> set col \<and> \<not> list_ex (\<lambda>v. case v of Str s \<Rightarrow> True | Num i \<Rightarrow> False | NaN \<Rightarrow> False) col)"

text \<open>
  \<^verbatim>\<open>str(v)\<close> for a cell \<open>v\<close> of the column \<open>col\<close>: a text is itself, the missing
  value prints as \<^verbatim>\<open>nan\<close>, and an integer prints its digits, followed by \<^verbatim>\<open>.0\<close>
  when the column is \<^verbatim>\<open>float64\<close>. That is how Python prints an integer-valued float
  of fewer than 17 digits; a float holds no longer integer digit by digit, and the model
  does not go there.
\<close>

fun str_cell :: "cell list \<Rightarrow> cell \<Rightarrow> string" where
  "str_cell col (Str s) = s"
| "str_cell col (Num i) = (if float64 col then str_int i @ ''.0'' else str_int i)"
| "str_cell col NaN = ''nan''"

subsection \<open>Authentication: \<^verbatim>\<open>authenticate_user\<close> (lines 100--124)\<close>

text \<open>
  \<^verbatim>\<open>hash_password\<close> (lines 17--19) is SHA-256 of the password as a hexadecimal string.
  The digest function is a parameter of the model: \<open>hash_password\<close> below stands for
  \<^verbatim>\<open>lambda p: hashlib.sha256(p.encode()).hexdigest()\<close>, and nothing is assumed of it.

  The result \<^verbatim>\<open>(ok, user, role)\<close> is a triple; Python's \<^verbatim>\<open>None\<close> is \<open>None\<close>. The
  function has no \<^verbatim>\<open>try\<close>: a missing \<^verbatim>\<open>Name\<close> column raises at line 105, a missing
  \<^verbatim>\<open>Role\<close> column raises where a successful branch reads the role.
\<close>

definition looks_hashed :: "string \<Rightarrow> bool" where
  "looks_hashed stored_password =
    (length stored_password = 64
      \<and> list_all (\<lambda>c. c \<in> set ''0123456789abcdef'') (py_lower stored_password))"

definition login_ok :: "cell \<Rightarrow> dataframe \<Rightarrow> row \<Rightarrow> exn + bool \<times> cell option \<times> cell option" where
  "login_ok username members_df user_row =
    (if ''Role'' \<in> set (columns members_df) then Inr (True, Some username, Some (user_row ''Role''))
     else Inl KeyError)"

definition authenticate_user ::
  "(string \<Rightarrow> string) \<Rightarrow> cell \<Rightarrow> string \<Rightarrow> dataframe \<Rightarrow> exn + bool \<times> cell option \<times> cell option"
where
  "authenticate_user hash_password username password members_df =
    (if df_empty members_df then Inr (False, None, None)
     else if ''Name'' \<notin> set (columns members_df) then Inl KeyError
     else
       (case rows (select (\<lambda>r. py_eq (r ''Name'') username) members_df) of
         [] \<Rightarrow> Inr (False, None, None)
       | user_row # _ \<Rightarrow>
           if ''Password'' \<in> set (columns members_df) then
             let stored_password =
               str_cell (map (\<lambda>r. r ''Password'') (rows members_df)) (user_row ''Password'')
             in
             if looks_hashed stored_password then
               if hash_password password = stored_password
               then login_ok username members_df user_row
               else Inr (False, None, None)
             else
               if password = stored_password
               then login_ok username members_df user_row
               else Inr (False, None, None)
           else
             if password = ''password123''
             then login_ok username members_df user_row
             else Inr (False, None, None)))"

subsection \<open>The workbook\<close>

text \<open>
  A workbook: its two sheets, each absent or a table of cells as stored (a blank cell is
  \<open>NaN\<close>). The file \<^verbatim>\<open>club_tasks.xlsx\<close> is absent (\<open>None\<close>) or a workbook.
\<close>

record workbook =
  tasks_sheet :: "dataframe option"
  members_sheet :: "dataframe option"

type_synonym xlsx = "workbook option"

text \<open>
  What the environment does to a write: it goes through (\<open>None\<close>), or it raises with a
  message and leaves the file in some state (\<open>Some (msg, left)\<close>). Nothing is assumed
  of \<open>left\<close>: a write that raises half-way can leave a changed file.
\<close>

type_synonym io = "(string \<times> xlsx) option"

text \<open>
  Writing a frame to a sheet stores its cells as they are. Reading a sheet
  (\<^verbatim>\<open>pd.read_excel\<close> with its defaults) turns every text cell that is one of pandas'
  markers for a missing value into the missing value. pandas also turns a column whose
  texts all read as numbers into numbers; that inference is not modelled.
\<close>

definition na_values :: "string list" where
  "na_values =
    [[], ''#N/A'', ''#N/A N/A'', ''#NA'', ''-1.#IND'', ''-1.#QNAN'', ''-NaN'', ''-nan'',
     ''1.#IND'', ''1.#QNAN'', ''<NA>'', ''N/A'', ''NA'', ''NULL'', ''NaN'', ''None'', ''n/a'',
     ''nan'', ''null'']"

fun read_cell :: "cell \<Rightarrow> cell" where
  "read_cell (Str s) = (if s \<in> set na_values then NaN else Str s)"
| "read_cell (Num i) = Num i"
| "read_cell NaN = NaN"

definition read_excel :: "dataframe \<Rightarrow> dataframe" where
  "read_excel sheet = sheet\<lparr>rows := map (\<lambda>r c. read_cell (r c)) (rows sheet)\<rparr>"

text \<open>
  \<^verbatim>\<open>df.columns = df.columns.str.strip()\<close>: every label is stripped, and a cell is found
  under the stripped label of its column (of the first such column, should two labels
  strip to the same text).
\<close>

definition strip_columns :: "dataframe \<Rightarrow> dataframe" where
  "strip_columns df =
    \<lparr>columns = map py_strip (columns df),
     rows =
       map (\<lambda>r c'. case find (\<lambda>c. py_strip c = c') (columns df) of
                     Some c \<Rightarrow> r c
                   | None \<Rightarrow> NaN)
         (rows df)\<rparr>"

definition tasks_cols :: "string list" where
  "tasks_cols =
    [''TaskID'', ''TaskName'', ''AssignedTo'', ''Role'', ''Status'', ''Deadline'', ''Priority'',
     ''Description'']"

definition members_cols :: "string list" where
  "members_cols = [''Name'', ''Role'', ''Password'']"

text \<open>
  \<^verbatim>\<open>load_data\<close> (lines 40--55): each sheet is read, or replaced by the empty table with
  the standard columns when the file or the sheet is missing; then the labels are
  stripped. The result is the pair \<^verbatim>\<open>(tasks_df, members_df)\<close>.
\<close>

definition load_data :: "xlsx \<Rightarrow> dataframe \<times> dataframe" where
  "load_data f =
    (let tasks_df =
           (case f of
             None \<Rightarrow> \<lparr>columns = tasks_cols, rows = []\<rparr>
           | Some wb \<Rightarrow>
               (case tasks_sheet wb of
                 None \<Rightarrow> \<lparr>columns = tasks_cols, rows = []\<rparr>
               | Some sheet \<Rightarrow> read_excel sheet));
         members_df =
           (case f of
             None \<Rightarrow> \<lparr>columns = members_cols, rows = []\<rparr>
           | Some wb \<Rightarrow>
               (case members_sheet wb of
                 None \<Rightarrow> \<lparr>columns = members_cols, rows = []\<rparr>
               | Some sheet \<Rightarrow> read_excel sheet))
     in (strip_columns tasks_df, strip_columns members_df))"

text \<open>
  \<^verbatim>\<open>update_tasks_sheet\<close> (lines 25--38). Without a file the writer is opened with
  \<^verbatim>\<open>mode="w"\<close> and \<^verbatim>\<open>if_sheet_exists="replace"\<close>, which pandas refuses before it
  touches the disk: the function returns \<^verbatim>\<open>False\<close> and there is still no file. With
  a file, the \<^verbatim>\<open>Tasks\<close> sheet is replaced and the other sheets are kept; when the
  write raises, the function returns \<^verbatim>\<open>False\<close> and the file is as the environment
  left it.
\<close>

definition update_tasks_sheet :: "io \<Rightarrow> xlsx \<Rightarrow> dataframe \<Rightarrow> bool \<times> xlsx" where
  "update_tasks_sheet io f df =
    (case f of
      None \<Rightarrow> (False, None)
    | Some wb \<Rightarrow>
        (case io of
          None \<Rightarrow> (True, Some (wb\<lparr>tasks_sheet := Some df\<rparr>))
        | Some (msg, left) \<Rightarrow> (False, left)))"

subsection \<open>Task identifiers: \<^verbatim>\<open>generate_unique_taskid\<close> (lines 163--171)\<close>

text \<open>
  \<^verbatim>\<open>random.randint(a, b)\<close> returns an integer \<open>N\<close> with \<open>a \<le> N \<le> b\<close>. The generator is a
  sequence \<open>rnd\<close> of raw draws (natural numbers); the \<open>i\<close>-th call reduces the \<open>i\<close>-th
  draw into the range.
\<close>

definition randint :: "int \<Rightarrow> int \<Rightarrow> nat \<Rightarrow> int" where
  "randint a b x = a + int (x mod nat (b - a + 1))"

text \<open>
  \<^verbatim>\<open>pd.to_numeric(..., errors="coerce")\<close> on one cell gives a finite number, an
  infinity (for a text such as \<^verbatim>\<open>inf\<close>), or the missing value (for a blank and for a
  text that is not a number). A finite number is given here by the integer that
  \<^verbatim>\<open>astype(int)\<close> makes of it. How pandas reads a text is the parameter \<open>parse\<close>.
\<close>

datatype numeric = Finite int | NonFinite | NotNumber

fun to_numeric :: "(string \<Rightarrow> numeric) \<Rightarrow> cell \<Rightarrow> numeric" where
  "to_numeric parse (Str s) = parse s"
| "to_numeric parse (Num i) = Finite i"
| "to_numeric parse NaN = NotNumber"

text \<open>\<^verbatim>\<open>dropna()\<close> drops the missing values and keeps the infinities.\<close>

fun finite_value :: "numeric \<Rightarrow> int option" where
  "finite_value (Finite i) = Some i"
| "finite_value NonFinite = None"
| "finite_value NotNumber = None"

text \<open>
  The loop of lines 168--171, from the \<open>i\<close>-th draw on. It may run forever; \<open>None\<close> is
  the value of a run that never returns.
\<close>

partial_function (option) taskid_loop :: "(nat \<Rightarrow> nat) \<Rightarrow> int set \<Rightarrow> nat \<Rightarrow> int option" where
  "taskid_loop rnd existing_ids i =
    (let new_id = randint 100000 999999 (rnd i)
     in if new_id \<notin> existing_ids then Some new_id else taskid_loop rnd existing_ids (Suc i))"

declare taskid_loop.simps [code]

text \<open>
  The whole function. Line 167 raises when a number left by \<^verbatim>\<open>dropna()\<close> is an
  infinity: \<^verbatim>\<open>astype(int)\<close> cannot convert it, and nothing catches the exception. The
  outer option is \<open>None\<close> when the call never returns.
\<close>

definition generate_unique_taskid ::
  "(string \<Rightarrow> numeric) \<Rightarrow> (nat \<Rightarrow> nat) \<Rightarrow> dataframe \<Rightarrow> (exn + int) option"
where
  "generate_unique_taskid parse rnd tasks_df =
    (if df_empty tasks_df \<or> ''TaskID'' \<notin> set (columns tasks_df)
     then Some (Inr (randint 100000 999999 (rnd 0)))
     else
       let numbers = map (\<lambda>r. to_numeric parse (r ''TaskID'')) (rows tasks_df) in
       if NonFinite \<in> set numbers then Some (Inl ValueError)
       else
         let existing_ids = set (List.map_filter finite_value numbers)
         in map_option Inr (taskid_loop rnd existing_ids 0))"

subsection \<open>Registration: \<^verbatim>\<open>register_user\<close> (lines 126--161)\<close>

text \<open>
  \<^verbatim>\<open>pd.concat([df, pd.DataFrame([d])], ignore_index=True)\<close> for a dictionary \<open>d\<close> with
  the keys \<open>keys\<close>: the keys that are not yet columns become columns, the old rows are
  missing there, and the new row is missing where \<open>d\<close> has no key.
\<close>

definition concat_row :: "dataframe \<Rightarrow> string list \<Rightarrow> row \<Rightarrow> dataframe" where
  "concat_row df keys d =
    \<lparr>columns = columns df @ filter (\<lambda>k. k \<notin> set (columns df)) keys,
     rows =
       map (\<lambda>r c. if c \<in> set (columns df) then r c else NaN) (rows df)
       @ [\<lambda>c. if c \<in> set keys then d c else NaN]\<rparr>"

text \<open>
  Lines 153--161: the placeholder row is appended and both sheets are written in one
  write of the whole file (\<^verbatim>\<open>mode="w"\<close>: a file is made when there is none). When the
  write raises, the function reports it and the file is as the environment left it.
\<close>

definition register_save ::
  "io \<Rightarrow> xlsx \<Rightarrow> dataframe \<Rightarrow> row \<Rightarrow> dataframe \<Rightarrow> (bool \<times> string) \<times> xlsx"
where
  "register_save io f tasks_df new_task members_df =
    (let tasks_df' = concat_row tasks_df (columns tasks_df) new_task
     in case io of
          None \<Rightarrow>
            ((True, ''Registration successful! You can now log in.''),
             Some \<lparr>tasks_sheet = Some tasks_df', members_sheet = Some members_df\<rparr>)
        | Some (msg, left) \<Rightarrow> ((False, ''Error saving user: '' @ msg), left))"

text \<open>
  Lines 140--152: the \<^verbatim>\<open>Tasks\<close> sheet is read again from the file (a missing file or
  sheet gives the empty table with the standard columns), and the placeholder row is
  built: \<^verbatim>\<open>"-"\<close> in every column, then the assignee, the role and a fresh identifier
  where those columns exist. \<^verbatim>\<open>generate_unique_taskid\<close> is called outside any
  \<^verbatim>\<open>try\<close>: its exception leaves the function, and its loop may not return, hence the
  option.
\<close>

definition register_tasks ::
  "(string \<Rightarrow> numeric) \<Rightarrow> (nat \<Rightarrow> nat) \<Rightarrow> io \<Rightarrow> xlsx \<Rightarrow> string \<Rightarrow> string
    \<Rightarrow> dataframe \<Rightarrow> ((exn + bool \<times> string) \<times> xlsx) option"
where
  "register_tasks parse rnd io f name role members_df =
    (let tasks_df =
           (case f of
             None \<Rightarrow> \<lparr>columns = tasks_cols, rows = []\<rparr>
           | Some wb \<Rightarrow>
               (case tasks_sheet wb of
                 None \<Rightarrow> \<lparr>columns = tasks_cols, rows = []\<rparr>
               | Some sheet \<Rightarrow> read_excel sheet));
         new_task0 = (\<lambda>c. if c \<in> set (columns tasks_df) then Str ''-'' else NaN);
         new_task1 =
           (if ''AssignedTo'' \<in> set (columns tasks_df)
            then new_task0(''AssignedTo'' := Str name) else new_task0);
         new_task2 =
           (if ''Role'' \<in> set (columns tasks_df)
            then new_task1(''Role'' := Str role) else new_task1)
     in if ''TaskID'' \<in> set (columns tasks_df) then
          (case generate_unique_taskid parse rnd tasks_df of
            None \<Rightarrow> None
          | Some (Inl e) \<Rightarrow> Some (Inl e, f)
          | Some (Inr new_id) \<Rightarrow>
              (case register_save io f tasks_df (new_task2(''TaskID'' := Num new_id)) members_df of
                (res, f') \<Rightarrow> Some (Inr res, f')))
        else
          (case register_save io f tasks_df new_task2 members_df of
            (res, f') \<Rightarrow> Some (Inr res, f')))"

text \<open>
  The whole function. \<^verbatim>\<open>name in members_df["Name"].values\<close> (line 137) compares the
  name with every cell of the column, and raises \<^verbatim>\<open>KeyError\<close> without the column;
  nothing catches it. The outer option is \<open>None\<close> when the call never returns.
\<close>

definition register_user ::
  "(string \<Rightarrow> string) \<Rightarrow> (string \<Rightarrow> numeric) \<Rightarrow> (nat \<Rightarrow> nat) \<Rightarrow> io \<Rightarrow> xlsx
    \<Rightarrow> string \<Rightarrow> string \<Rightarrow> string \<Rightarrow> dataframe \<Rightarrow> ((exn + bool \<times> string) \<times> xlsx) option"
where
  "register_user hash_password parse rnd io wb name password role members_df =
    (let hashed_pw = hash_password password;
         new_user =
           (\<lambda>_. NaN)(''Name'' := Str name, ''Role'' := Str role, ''Password'' := Str hashed_pw);
         user_keys = [''Name'', ''Role'', ''Password'']
     in if df_empty members_df then
          register_tasks parse rnd io wb name role \<lparr>columns = user_keys, rows = [new_user]\<rparr>
        else if ''Name'' \<notin> set (columns members_df) then Some (Inl KeyError, wb)
        else if list_ex (\<lambda>r. py_eq (r ''Name'') (Str name)) (rows members_df) then
          Some (Inr (False, ''User already exists.''), wb)
        else
          register_tasks parse rnd io wb name role (concat_row members_df user_keys new_user))"

subsection \<open>The dashboard: visible tasks (lines 307--330)\<close>

text \<open>
  \<open>user_name\<close> and \<open>user_role\<close> are the session's values, set at login from the name
  chosen and the \<^verbatim>\<open>Role\<close> cell of the member. Each filter reads one column of the task
  table and raises \<^verbatim>\<open>KeyError\<close> without it.
\<close>

definition view_df :: "cell \<Rightarrow> cell \<Rightarrow> dataframe \<Rightarrow> dataframe \<Rightarrow> exn + dataframe" where
  "view_df user_name user_role tasks_df members_df =
    (if user_role = Str ''Core Head'' then
       let allowed_roles = [Str ''Core Head'', Str ''Domain Head''] in
       if ''Role'' \<in> set (columns tasks_df)
       then Inr (select (\<lambda>r. isin (r ''Role'') allowed_roles) tasks_df)
       else Inl KeyError
     else if user_role = Str ''Domain Head'' then
       (case get_subordinates user_name members_df of
         Inl e \<Rightarrow> Inl e
       | Inr subordinates \<Rightarrow>
           if ''AssignedTo'' \<in> set (columns tasks_df)
           then Inr (select
                  (\<lambda>r. py_eq (r ''AssignedTo'') user_name \<or> isin (r ''AssignedTo'') subordinates)
                  tasks_df)
           else Inl KeyError)
     else if user_role = Str ''Associate Head'' then
       (case get_subordinates user_name members_df of
         Inl e \<Rightarrow> Inl e
       | Inr subordinates \<Rightarrow>
           if ''AssignedTo'' \<in> set (columns tasks_df)
           then Inr (select
                  (\<lambda>r. py_eq (r ''AssignedTo'') user_name \<or> isin (r ''AssignedTo'') subordinates)
                  tasks_df)
           else Inl KeyError)
     else
       if ''AssignedTo'' \<in> set (columns tasks_df)
       then Inr (select (\<lambda>r. py_eq (r ''AssignedTo'') user_name) tasks_df)
       else Inl KeyError)"

subsection \<open>The dashboard: status update (lines 437--471)\<close>

text \<open>
  \<^verbatim>\<open>df.loc[mask, c] = v\<close>: the cell under \<open>c\<close> becomes \<open>v\<close> in the rows of the mask. When
  \<open>c\<close> is not yet a column, pandas adds it, missing in the other rows.
\<close>

definition loc_assign :: "(row \<Rightarrow> bool) \<Rightarrow> string \<Rightarrow> cell \<Rightarrow> dataframe \<Rightarrow> dataframe" where
  "loc_assign keep c v df =
    (if c \<in> set (columns df)
     then df\<lparr>rows := map (\<lambda>r. if keep r then r(c := v) else r) (rows df)\<rparr>
     else df\<lparr>columns := columns df @ [c],
             rows := map (\<lambda>r. if keep r then r(c := v) else r(c := NaN)) (rows df)\<rparr>)"

text \<open>What the page shows after a press of the update button.\<close>

datatype outcome =
    CannotLoadData         \<comment> \<open>line 285: a table is empty\<close>
  | NoTasksAvailable       \<comment> \<open>line 471: nothing to update\<close>
  | DescriptionRequired    \<comment> \<open>line 462: the warning for a missing completion note\<close>
  | StatusUpdated          \<comment> \<open>line 468: written and reported\<close>
  | WriteFailed            \<comment> \<open>line 37: the write raised, or there is no file\<close>

text \<open>
  Lines 460--469, the body of \<^verbatim>\<open>if update_button\<close>: \<open>tasks_df\<close> is the task table as
  loaded, \<open>task_to_update\<close> the identifier chosen in the form.
\<close>

definition update_status ::
  "io \<Rightarrow> xlsx \<Rightarrow> dataframe \<Rightarrow> cell \<Rightarrow> string \<Rightarrow> string \<Rightarrow> (exn + outcome) \<times> xlsx"
where
  "update_status io wb tasks_df task_to_update new_status completion_description =
    (if new_status = ''Done'' \<and> py_strip completion_description = [] then
       (Inr DescriptionRequired, wb)
     else if ''TaskID'' \<notin> set (columns tasks_df) then (Inl KeyError, wb)
     else
       let selected = (\<lambda>r. py_eq (r ''TaskID'') task_to_update);
           tasks_df1 = loc_assign selected ''Status'' (Str new_status) tasks_df;
           tasks_df2 =
             (if new_status = ''Done''
              then loc_assign selected ''Description'' (Str completion_description) tasks_df1
              else tasks_df1)
       in case update_tasks_sheet io wb tasks_df2 of
            (True, wb') \<Rightarrow> (Inr StatusUpdated, wb')
          | (False, wb') \<Rightarrow> (Inr WriteFailed, wb'))"

text \<open>
  The run of \<^verbatim>\<open>show_dashboard\<close> (lines 284--471) in which the update button is pressed,
  from the loaded tables to the outcome. Only the steps that read the tables are kept:
  the emptiness check (284), the visible tasks (307--330), the summary and the styled
  list, which read the \<^verbatim>\<open>Status\<close> column of a non-empty view (334--343, 360), the
  tasks offered for update (439--442), and the select box (446--450), which reads
  \<^verbatim>\<open>TaskID\<close> and labels every option with the \<^verbatim>\<open>TaskName\<close> of the first row with
  that identifier (\<^verbatim>\<open>iloc[0]\<close> raises \<^verbatim>\<open>IndexError\<close> when no row has it, as for a
  missing identifier). The details checkbox of the first tab is taken as not ticked.
  The select box returns one of its options: the user's choice \<open>choice\<close> is an index,
  taken modulo the number of options. The text area for the completion note exists
  only when the new status is Done (454--456); otherwise the note is empty.
\<close>

definition show_dashboard_update ::
  "io \<Rightarrow> xlsx \<Rightarrow> cell \<Rightarrow> cell \<Rightarrow> dataframe \<Rightarrow> dataframe \<Rightarrow> nat \<Rightarrow> string \<Rightarrow> string
    \<Rightarrow> (exn + outcome) \<times> xlsx"
where
  "show_dashboard_update io wb user_name user_role tasks_df members_df choice new_status
      typed_description =
    (if df_empty tasks_df \<or> df_empty members_df then (Inr CannotLoadData, wb)
     else
       (case view_df user_name user_role tasks_df members_df of
         Inl e \<Rightarrow> (Inl e, wb)
       | Inr view \<Rightarrow>
           if \<not> df_empty view \<and> ''Status'' \<notin> set (columns view) then (Inl KeyError, wb)
           else
             (case
                (if user_role = Str ''Junior Head'' then
                   if ''AssignedTo'' \<in> set (columns view)
                   then Inr (select (\<lambda>r. py_eq (r ''AssignedTo'') user_name) view)
                   else Inl KeyError
                 else Inr view)
              of
               Inl e \<Rightarrow> (Inl e, wb)
             | Inr user_tasks \<Rightarrow>
                 if df_empty user_tasks then (Inr NoTasksAvailable, wb)
                 else
                   (case tolist user_tasks ''TaskID'' of
                     Inl e \<Rightarrow> (Inl e, wb)
                   | Inr options \<Rightarrow>
                       if ''TaskName'' \<notin> set (columns user_tasks) then (Inl KeyError, wb)
                       else if list_ex
                           (\<lambda>x. \<not> list_ex (\<lambda>r. py_eq (r ''TaskID'') x) (rows user_tasks)) options
                       then (Inl IndexError, wb)
                       else
                         let task_to_update = options ! (choice mod length options);
                             completion_description =
                               (if new_status = ''Done'' then typed_description else [])
                         in update_status io wb tasks_df task_to_update new_status
                              completion_description))))"

text \<open>
  The same run from the file: line 282 loads both tables, and the rest of the page works
  on them and writes to the file.
\<close>

definition show_dashboard ::
  "io \<Rightarrow> xlsx \<Rightarrow> cell \<Rightarrow> cell \<Rightarrow> nat \<Rightarrow> string \<Rightarrow> string \<Rightarrow> (exn + outcome) \<times> xlsx"
where
  "show_dashboard io f user_name user_role choice new_status typed_description =
    (case load_data f of
      (tasks_df, members_df) \<Rightarrow>
        show_dashboard_update io f user_name user_role tasks_df members_df choice new_status
          typed_description)"

subsection \<open>Example tables\<close>

text \<open>A row from its dictionary: missing under every other label.\<close>

definition row_of :: "(string \<times> cell) list \<Rightarrow> row" where
  "row_of d = (\<lambda>c. case map_of d c of Some v \<Rightarrow> v | None \<Rightarrow> NaN)"

definition mk_member :: "string \<Rightarrow> string \<Rightarrow> row" where
  "mk_member name role = row_of [(''Name'', Str name), (''Role'', Str role)]"

text \<open>A member table with the two mandatory columns only.\<close>

definition members_plain :: dataframe where
  "members_plain =
    \<lparr>columns = [''Name'', ''Role''],
     rows =
       [mk_member ''Alice'' ''Core Head'', mk_member ''Bob'' ''Domain Head'',
        mk_member ''Dee'' ''Associate Head'', mk_member ''Cy'' ''Junior Head'']\<rparr>"

definition mk_member_in :: "string \<Rightarrow> string \<Rightarrow> string \<Rightarrow> row" where
  "mk_member_in name role domain =
    row_of [(''Name'', Str name), (''Role'', Str role), (''Domain'', Str domain)]"

text \<open>A member table with a \<^verbatim>\<open>Domain\<close> column.\<close>

definition members_domains :: dataframe where
  "members_domains =
    \<lparr>columns = [''Name'', ''Role'', ''Domain''],
     rows =
       [mk_member_in ''Bob'' ''Domain Head'' ''Tech'', mk_member_in ''Dee'' ''Associate Head'' ''Tech'',
        mk_member_in ''Eve'' ''Associate Head'' ''Design'', mk_member_in ''Cy'' ''Junior Head'' ''Tech'']\<rparr>"

definition mk_login :: "string \<Rightarrow> string \<Rightarrow> cell \<Rightarrow> row" where
  "mk_login name role password =
    row_of [(''Name'', Str name), (''Role'', Str role), (''Password'', password)]"

text \<open>
  A stand-in for SHA-256 in the examples: 64 hexadecimal digits, \<^verbatim>\<open>a\<close> for the one
  password \<^verbatim>\<open>hunter2\<close> and \<^verbatim>\<open>0\<close> for every other.
\<close>

definition toy_digest :: "string \<Rightarrow> string" where
  "toy_digest p = replicate 64 (if p = ''hunter2'' then CHR ''a'' else CHR ''0'')"

text \<open>
  A member table with a \<^verbatim>\<open>Password\<close> column: Alice's cell holds a digest, Bob's
  cell is blank, Cy's holds a legacy plain-text password.
\<close>

definition members_passwords :: dataframe where
  "members_passwords =
    \<lparr>columns = [''Name'', ''Role'', ''Password''],
     rows =
       [mk_login ''Alice'' ''Core Head'' (Str (replicate 64 CHR ''a'')),
        mk_login ''Bob'' ''Domain Head'' NaN,
        mk_login ''Cy'' ''Junior Head'' (Str ''letmein'')]\<rparr>"

text \<open>A task table with one numeric identifier and one stored as text.\<close>

definition tasks_two :: dataframe where
  "tasks_two =
    \<lparr>columns = [''TaskID'', ''Status''],
     rows = [row_of [(''TaskID'', Num 100000), (''Status'', Str ''Done'')],
             row_of [(''TaskID'', Str ''100001''), (''Status'', Str ''-'')]]\<rparr>"

text \<open>
  A reader of texts for the examples: it knows the number \<^verbatim>\<open>100001\<close> and the infinity
  \<^verbatim>\<open>inf\<close>, as pandas does, and takes every other text for no number.
\<close>

definition parse_toy :: "string \<Rightarrow> numeric" where
  "parse_toy s =
    (if s = ''100001'' then Finite 100001 else if s = ''inf'' then NonFinite else NotNumber)"

text \<open>A task table in which one identifier cell holds the text \<^verbatim>\<open>inf\<close>.\<close>

definition tasks_inf :: dataframe where
  "tasks_inf =
    \<lparr>columns = [''TaskID'', ''Status''],
     rows = [row_of [(''TaskID'', Num 100000), (''Status'', Str ''Done'')],
             row_of [(''TaskID'', Str ''inf''), (''Status'', Str ''-'')]]\<rparr>"

definition mk_task :: "int \<Rightarrow> string \<Rightarrow> string \<Rightarrow> string \<Rightarrow> string \<Rightarrow> row" where
  "mk_task tid name assignee role status =
    row_of [(''TaskID'', Num tid), (''TaskName'', Str name), (''AssignedTo'', Str assignee),
            (''Role'', Str role), (''Status'', Str status), (''Description'', Str ''first draft'')]"

text \<open>A task table with the standard columns, and a workbook holding it.\<close>

definition tasks_three :: dataframe where
  "tasks_three =
    \<lparr>columns = tasks_cols,
     rows = [mk_task 100000 ''budget'' ''Bob'' ''Domain Head'' ''In Progress'',
             mk_task 100001 ''poster'' ''Cy'' ''Junior Head'' ''Not Started'',
             mk_task 100002 ''agenda'' ''Alice'' ''Core Head'' ''Done'']\<rparr>"

definition book :: xlsx where
  "book = Some \<lparr>tasks_sheet = Some tasks_three, members_sheet = Some members_plain\<rparr>"

text \<open>
  A stored task table in which the note of the second task is the text \<^verbatim>\<open>N/A\<close>, and
  the file holding it.
\<close>

definition tasks_na :: dataframe where
  "tasks_na =
    \<lparr>columns = tasks_cols,
     rows = [mk_task 100000 ''budget'' ''Bob'' ''Domain Head'' ''Not Started'',
             (mk_task 100001 ''poster'' ''Dee'' ''Associate Head'' ''Not Started'')
               (''Description'' := Str ''N/A'')]\<rparr>"

definition book_na :: xlsx where
  "book_na = Some \<lparr>tasks_sheet = Some tasks_na, members_sheet = Some members_plain\<rparr>"

section \<open>Properties\<close>

subsection \<open>Lists\<close>

lemma find_filter_Cons: "find P xs = Some x \<Longrightarrow> \<exists>rest. filter P xs = x # rest"
  by (induction xs) (auto split: if_splits)

lemma find_Some_mem: "find P xs = Some x \<Longrightarrow> x \<in> set xs \<and> P x"
  by (induction xs) (auto split: if_splits)

lemma not_ex_filter: "\<not> list_ex P xs \<Longrightarrow> filter P xs = []"
  by (induction xs) auto

lemma py_eq_Str: "py_eq a (Str s) \<longleftrightarrow> a = Str s"
  by (auto simp: py_eq_def)

lemma dropWhile_all: "(\<forall>x \<in> set xs. P x) \<Longrightarrow> dropWhile P xs = []"
  by (induction xs) auto

lemma set_map_filter: "set (List.map_filter f xs) = {y. \<exists>x \<in> set xs. f x = Some y}"
  by (induction xs) (auto simp: List.map_filter_def)

subsection \<open>The hierarchy\<close>

lemma get_subordinates_total: "\<exists>names. get_subordinates actor members_df = Inr names"
  by (simp add: get_subordinates_def split: sum.split)

text \<open>
  C1. The actor is found in a member table with \<^verbatim>\<open>Name\<close> and \<^verbatim>\<open>Role\<close> columns, and
  the role of the actor (of the first row with the actor's name, the one the code reads)
  is Core Head. Then \<^verbatim>\<open>get_subordinates\<close> returns, in table order, exactly the names of
  the rows whose role is Domain Head or Core Head; the actor's own name is among them,
  since nothing excludes it.
\<close>

theorem core_head_subordinates:
  assumes "''Name'' \<in> set (columns members_df)" and "''Role'' \<in> set (columns members_df)"
    and "find (\<lambda>r. py_eq (r ''Name'') actor) (rows members_df) = Some m"
    and "m ''Role'' = Str ''Core Head''"
  shows "get_subordinates actor members_df =
      Inr (map (\<lambda>r. r ''Name'')
        (filter (\<lambda>r. r ''Role'' = Str ''Domain Head'' \<or> r ''Role'' = Str ''Core Head'')
          (rows members_df)))
    \<and> actor \<in> set (map (\<lambda>r. r ''Name'')
        (filter (\<lambda>r. r ''Role'' = Str ''Domain Head'' \<or> r ''Role'' = Str ''Core Head'')
          (rows members_df)))"
proof -
  from find_filter_Cons [OF assms(3)]
  obtain rest where f: "filter (\<lambda>r. py_eq (r ''Name'') actor) (rows members_df) = m # rest" ..
  from find_Some_mem [OF assms(3)]
  have mem: "m \<in> set (rows members_df)" and eq: "py_eq (m ''Name'') actor"
    by auto
  have ne: "\<not> df_empty members_df"
    using assms(1) mem by (auto simp: df_empty_def)
  have 1: "get_subordinates actor members_df =
      Inr (map (\<lambda>r. r ''Name'')
        (filter (\<lambda>r. r ''Role'' = Str ''Domain Head'' \<or> r ''Role'' = Str ''Core Head'')
          (rows members_df)))"
    using assms(1,2,4) f ne
    by (simp add: get_subordinates_def get_subordinates_try_def select_def tolist_def isin_def)
  have "m ''Name'' = actor" using eq by (simp add: py_eq_def)
  then have 2: "actor \<in> set (map (\<lambda>r. r ''Name'')
        (filter (\<lambda>r. r ''Role'' = Str ''Domain Head'' \<or> r ''Role'' = Str ''Core Head'')
          (rows members_df)))"
    using mem assms(4) by force
  from 1 2 show ?thesis by blast
qed

text \<open>Alice, a Core Head, may assign to herself and to Bob, the Domain Head.\<close>

theorem core_head_subordinates_witness:
  "get_subordinates (Str ''Alice'') members_plain = Inr [Str ''Alice'', Str ''Bob'']"
  using core_head_subordinates [of members_plain "Str ''Alice''" "mk_member ''Alice'' ''Core Head''"]
  by (simp add: members_plain_def mk_member_def row_of_def py_eq_def)

text \<open>
  C5. The actor is found in a member table with \<^verbatim>\<open>Name\<close> and \<^verbatim>\<open>Role\<close> columns and
  is a Domain Head. With a \<^verbatim>\<open>Domain\<close> column, \<^verbatim>\<open>get_subordinates\<close> returns exactly
  the names of the Associate Heads whose domain equals the actor's (equality is Python's
  \<^verbatim>\<open>==\<close>, under which a missing domain equals nothing); without that column it returns
  the names of all Associate Heads.
\<close>

theorem domain_head_subordinates:
  assumes "''Name'' \<in> set (columns members_df)" and "''Role'' \<in> set (columns members_df)"
    and "find (\<lambda>r. py_eq (r ''Name'') actor) (rows members_df) = Some m"
    and "m ''Role'' = Str ''Domain Head''"
  shows "(''Domain'' \<in> set (columns members_df) \<longrightarrow>
          get_subordinates actor members_df =
            Inr (map (\<lambda>r. r ''Name'')
              (filter
                (\<lambda>r. r ''Role'' = Str ''Associate Head'' \<and> py_eq (r ''Domain'') (m ''Domain''))
                (rows members_df))))
    \<and> (''Domain'' \<notin> set (columns members_df) \<longrightarrow>
          get_subordinates actor members_df =
            Inr (map (\<lambda>r. r ''Name'')
              (filter (\<lambda>r. r ''Role'' = Str ''Associate Head'') (rows members_df))))"
proof -
  from find_filter_Cons [OF assms(3)]
  obtain rest where f: "filter (\<lambda>r. py_eq (r ''Name'') actor) (rows members_df) = m # rest" ..
  from find_Some_mem [OF assms(3)] have mem: "m \<in> set (rows members_df)" by simp
  have ne: "\<not> df_empty members_df"
    using assms(1) mem by (auto simp: df_empty_def)
  have role: "\<And>r. py_eq (r ''Role'') (Str ''Associate Head'') = (r ''Role'' = Str ''Associate Head'')"
    by (auto simp: py_eq_def)
  show ?thesis
    using assms(1,2,4) f ne
    by (simp add: get_subordinates_def get_subordinates_try_def select_def tolist_def role)
qed

text \<open>
  Bob heads the Tech domain: with the column he gets Dee but not Eve of Design; in the
  table without the column he gets every Associate Head.
\<close>

theorem domain_head_subordinates_witness:
  "get_subordinates (Str ''Bob'') members_domains = Inr [Str ''Dee'']
   \<and> get_subordinates (Str ''Bob'') (members_domains\<lparr>columns := [''Name'', ''Role'']\<rparr>)
      = Inr [Str ''Dee'', Str ''Eve'']"
  using
    domain_head_subordinates
      [of members_domains "Str ''Bob''" "mk_member_in ''Bob'' ''Domain Head'' ''Tech''"]
    domain_head_subordinates
      [of "members_domains\<lparr>columns := [''Name'', ''Role'']\<rparr>" "Str ''Bob''"
        "mk_member_in ''Bob'' ''Domain Head'' ''Tech''"]
  by (simp add: members_domains_def mk_member_in_def row_of_def py_eq_def)

text \<open>
  C8. \<^verbatim>\<open>get_subordinates\<close> never raises: its result is always a list. The list is
  empty when the member table is empty, when the actor's name does not occur in it (no
  \<^verbatim>\<open>Name\<close> column, or no row with that name), and when the actor's role is none of
  Core Head, Domain Head and Associate Head (Junior Head among them).
\<close>

theorem no_subordinates:
  "(\<exists>names. get_subordinates actor members_df = Inr names)
   \<and> (df_empty members_df
       \<or> \<not> (''Name'' \<in> set (columns members_df)
             \<and> list_ex (\<lambda>r. py_eq (r ''Name'') actor) (rows members_df))
       \<or> (\<exists>m. find (\<lambda>r. py_eq (r ''Name'') actor) (rows members_df) = Some m
             \<and> m ''Role'' \<noteq> Str ''Core Head'' \<and> m ''Role'' \<noteq> Str ''Domain Head''
             \<and> m ''Role'' \<noteq> Str ''Associate Head'')
      \<longrightarrow> get_subordinates actor members_df = Inr [])"
proof (intro conjI impI)
  show "\<exists>names. get_subordinates actor members_df = Inr names"
    by (rule get_subordinates_total)
next
  assume "df_empty members_df
       \<or> \<not> (''Name'' \<in> set (columns members_df)
             \<and> list_ex (\<lambda>r. py_eq (r ''Name'') actor) (rows members_df))
       \<or> (\<exists>m. find (\<lambda>r. py_eq (r ''Name'') actor) (rows members_df) = Some m
             \<and> m ''Role'' \<noteq> Str ''Core Head'' \<and> m ''Role'' \<noteq> Str ''Domain Head''
             \<and> m ''Role'' \<noteq> Str ''Associate Head'')"
  then consider
      (empty) "df_empty members_df"
    | (nocol) "''Name'' \<notin> set (columns members_df)"
    | (absent) "\<not> list_ex (\<lambda>r. py_eq (r ''Name'') actor) (rows members_df)"
    | (other) m where "find (\<lambda>r. py_eq (r ''Name'') actor) (rows members_df) = Some m"
        "m ''Role'' \<noteq> Str ''Core Head''" "m ''Role'' \<noteq> Str ''Domain Head''"
        "m ''Role'' \<noteq> Str ''Associate Head''"
    by blast
  then show "get_subordinates actor members_df = Inr []"
  proof cases
    case empty
    then show ?thesis by (simp add: get_subordinates_def)
  next
    case nocol
    then show ?thesis by (simp add: get_subordinates_def get_subordinates_try_def)
  next
    case absent
    from not_ex_filter [OF absent] show ?thesis
      by (simp add: get_subordinates_def get_subordinates_try_def select_def)
  next
    case other
    from find_filter_Cons [OF other(1)]
    obtain rest where "filter (\<lambda>r. py_eq (r ''Name'') actor) (rows members_df) = m # rest" ..
    with other(2-4) show ?thesis
      by (simp add: get_subordinates_def get_subordinates_try_def select_def)
  qed
qed

text \<open>
  Cy is a Junior Head, Zed is not a member, and the third table has no rows: no
  subordinates in each case.
\<close>

theorem no_subordinates_witness:
  "get_subordinates (Str ''Cy'') members_plain = Inr []
   \<and> get_subordinates (Str ''Zed'') members_plain = Inr []
   \<and> get_subordinates (Str ''Alice'') \<lparr>columns = [''Name'', ''Role''], rows = []\<rparr> = Inr []"
proof -
  have a: "find (\<lambda>r. py_eq (r ''Name'') (Str ''Cy'')) (rows members_plain)
      = Some (mk_member ''Cy'' ''Junior Head'')"
    by (simp add: members_plain_def mk_member_def row_of_def py_eq_def)
  have b: "mk_member ''Cy'' ''Junior Head'' ''Role'' = Str ''Junior Head''"
    by (simp add: mk_member_def row_of_def)
  have c: "\<not> list_ex (\<lambda>r. py_eq (r ''Name'') (Str ''Zed'')) (rows members_plain)"
    by (simp add: members_plain_def mk_member_def row_of_def py_eq_def)
  have d: "df_empty \<lparr>columns = [''Name'', ''Role''], rows = []\<rparr>"
    by (simp add: df_empty_def)
  from a b c d
    no_subordinates [of "Str ''Cy''" members_plain]
    no_subordinates [of "Str ''Zed''" members_plain]
    no_subordinates [of "Str ''Alice''" "\<lparr>columns = [''Name'', ''Role''], rows = []\<rparr>"]
  show ?thesis by auto
qed

subsection \<open>Authentication\<close>

text \<open>
  C4, as stated, fails. Bob's record has no password set: the table has a \<^verbatim>\<open>Password\<close>
  column and Bob's cell under it is blank. The guard of line 109 asks for the column, not
  for the cell, so the blank cell is compared as the text \<^verbatim>\<open>nan\<close>: the default
  credential is refused, and the password \<^verbatim>\<open>nan\<close> is accepted.
\<close>

theorem default_password_counterexample:
  "mk_login ''Bob'' ''Domain Head'' NaN \<in> set (rows members_passwords)
   \<and> mk_login ''Bob'' ''Domain Head'' NaN ''Password'' = NaN
   \<and> authenticate_user toy_digest (Str ''Bob'') ''password123'' members_passwords
       = Inr (False, None, None)
   \<and> authenticate_user toy_digest (Str ''Bob'') ''nan'' members_passwords
       = Inr (True, Some (Str ''Bob''), Some (Str ''Domain Head''))"
  by (simp add: authenticate_user_def members_passwords_def mk_login_def row_of_def
      df_empty_def select_def py_eq_def looks_hashed_def login_ok_def)

text \<open>
  C4, amended. In a member table that has no \<^verbatim>\<open>Password\<close> column at all (and has the
  \<^verbatim>\<open>Name\<close> and \<^verbatim>\<open>Role\<close> columns), every member found by name signs in with the
  default credential \<^verbatim>\<open>password123\<close>, getting the member's name and role, and with no
  other password.
\<close>

theorem default_password_without_column:
  assumes "''Name'' \<in> set (columns members_df)" and "''Role'' \<in> set (columns members_df)"
    and "''Password'' \<notin> set (columns members_df)"
    and "find (\<lambda>r. py_eq (r ''Name'') username) (rows members_df) = Some m"
  shows "authenticate_user hash_password username ''password123'' members_df
        = Inr (True, Some (m ''Name''), Some (m ''Role''))
    \<and> (\<forall>password. password \<noteq> ''password123'' \<longrightarrow>
          authenticate_user hash_password username password members_df = Inr (False, None, None))"
proof -
  from find_filter_Cons [OF assms(4)]
  obtain rest where f: "filter (\<lambda>r. py_eq (r ''Name'') username) (rows members_df) = m # rest" ..
  from find_Some_mem [OF assms(4)]
  have mem: "m \<in> set (rows members_df)" and eq: "py_eq (m ''Name'') username"
    by auto
  have ne: "\<not> df_empty members_df"
    using assms(1) mem by (auto simp: df_empty_def)
  have name: "m ''Name'' = username" using eq by (simp add: py_eq_def)
  show ?thesis
    using assms(1-3) f ne name
    by (simp add: authenticate_user_def select_def login_ok_def)
qed

text \<open>In the table without passwords Bob signs in with the default, and not with \<^verbatim>\<open>nan\<close>.\<close>

theorem default_password_without_column_witness:
  "authenticate_user toy_digest (Str ''Bob'') ''password123'' members_plain
      = Inr (True, Some (Str ''Bob''), Some (Str ''Domain Head''))
   \<and> authenticate_user toy_digest (Str ''Bob'') ''nan'' members_plain = Inr (False, None, None)"
proof -
  have "find (\<lambda>r. py_eq (r ''Name'') (Str ''Bob'')) (rows members_plain)
      = Some (mk_member ''Bob'' ''Domain Head'')"
    by (simp add: members_plain_def mk_member_def row_of_def py_eq_def)
  from default_password_without_column [OF _ _ _ this, of toy_digest]
  show ?thesis
    by (simp add: members_plain_def mk_member_def row_of_def)
qed

text \<open>
  C9. The member is found in a table with \<^verbatim>\<open>Name\<close>, \<^verbatim>\<open>Role\<close> and \<^verbatim>\<open>Password\<close>
  columns, and the stored password, as the text \<^verbatim>\<open>str\<close> makes of the member's cell,
  has 64 characters whose lower-case forms are all hexadecimal digits. Then signing in
  succeeds exactly when the digest of the supplied password equals the stored text, and
  fails otherwise; the plain-text comparison is not reached, so the stored text itself
  is refused as a password unless it is its own digest.
\<close>

theorem hashed_password_check:
  assumes "''Name'' \<in> set (columns members_df)" and "''Role'' \<in> set (columns members_df)"
    and "''Password'' \<in> set (columns members_df)"
    and "find (\<lambda>r. py_eq (r ''Name'') username) (rows members_df) = Some m"
    and "str_cell (map (\<lambda>r. r ''Password'') (rows members_df)) (m ''Password'') = stored"
    and "length stored = 64"
    and "\<forall>c \<in> set (py_lower stored). c \<in> set ''0123456789abcdef''"
  shows "authenticate_user hash_password username password members_df =
      (if hash_password password = stored
       then Inr (True, Some (m ''Name''), Some (m ''Role''))
       else Inr (False, None, None))
    \<and> (password = stored \<and> hash_password stored \<noteq> stored \<longrightarrow>
         authenticate_user hash_password username password members_df = Inr (False, None, None))"
proof -
  from find_filter_Cons [OF assms(4)]
  obtain rest where f: "filter (\<lambda>r. py_eq (r ''Name'') username) (rows members_df) = m # rest" ..
  from find_Some_mem [OF assms(4)]
  have mem: "m \<in> set (rows members_df)" and eq: "py_eq (m ''Name'') username"
    by auto
  have ne: "\<not> df_empty members_df"
    using assms(1) mem by (auto simp: df_empty_def)
  have name: "m ''Name'' = username" using eq by (simp add: py_eq_def)
  have hashed:
    "looks_hashed (str_cell (map (\<lambda>r. r ''Password'') (rows members_df)) (m ''Password''))"
    using assms(5-7) unfolding looks_hashed_def list_all_iff by blast
  have "authenticate_user hash_password username password members_df =
      (if hash_password password = stored
       then Inr (True, Some (m ''Name''), Some (m ''Role''))
       else Inr (False, None, None))"
    using assms(1-3,5) f ne name hashed
    by (simp add: authenticate_user_def select_def login_ok_def)
  then show ?thesis by auto
qed

text \<open>Alice signs in with the password behind her digest, and not with the digest.\<close>

theorem hashed_password_check_witness:
  "authenticate_user toy_digest (Str ''Alice'') ''hunter2'' members_passwords
      = Inr (True, Some (Str ''Alice''), Some (Str ''Core Head''))
   \<and> authenticate_user toy_digest (Str ''Alice'') (replicate 64 CHR ''a'') members_passwords
      = Inr (False, None, None)"
proof -
  have a: "find (\<lambda>r. py_eq (r ''Name'') (Str ''Alice'')) (rows members_passwords)
      = Some (mk_login ''Alice'' ''Core Head'' (Str (replicate 64 CHR ''a'')))"
    by (simp add: members_passwords_def mk_login_def row_of_def py_eq_def)
  have b: "str_cell (map (\<lambda>r. r ''Password'') (rows members_passwords))
        (mk_login ''Alice'' ''Core Head'' (Str (replicate 64 CHR ''a'')) ''Password'')
      = replicate 64 CHR ''a''"
    by (simp add: mk_login_def row_of_def)
  have c: "\<forall>c \<in> set (py_lower (replicate 64 CHR ''a'')). c \<in> set ''0123456789abcdef''"
    by (simp add: py_lower_def py_lower_char_def)
  have d: "replicate 64 CHR ''a'' \<noteq> ''hunter2''"
  proof
    assume "replicate 64 CHR ''a'' = ''hunter2''"
    then have "length (replicate 64 CHR ''a'') = length ''hunter2''" by (rule arg_cong)
    then show False by simp
  qed
  have e: "mk_login ''Alice'' ''Core Head'' (Str (replicate 64 CHR ''a'')) ''Name'' = Str ''Alice''"
    "mk_login ''Alice'' ''Core Head'' (Str (replicate 64 CHR ''a'')) ''Role'' = Str ''Core Head''"
    by (simp_all add: mk_login_def row_of_def)
  have cols: "''Name'' \<in> set (columns members_passwords)"
    "''Role'' \<in> set (columns members_passwords)" "''Password'' \<in> set (columns members_passwords)"
    by (simp_all add: members_passwords_def)
  from hashed_password_check [OF cols a b _ c, of toy_digest "''hunter2''"]
    hashed_password_check [OF cols a b _ c, of toy_digest "replicate 64 CHR ''a''"]
    d e
  show ?thesis
    by (simp add: toy_digest_def)
qed

subsection \<open>Task identifiers\<close>

lemma randint_bounds: "a \<le> b \<Longrightarrow> a \<le> randint a b x \<and> randint a b x \<le> b"
proof -
  assume "a \<le> b"
  then have pos: "0 < nat (b - a + 1)" by simp
  have "x mod nat (b - a + 1) < nat (b - a + 1)"
    using pos by (rule mod_less_divisor)
  then have "int (x mod nat (b - a + 1)) < b - a + 1" by linarith
  then show ?thesis by (simp add: randint_def)
qed

lemma taskid_loop_finds:
  "randint 100000 999999 (rnd (i + k)) \<notin> existing_ids \<Longrightarrow>
    \<exists>j. taskid_loop rnd existing_ids i = Some (randint 100000 999999 (rnd j))
       \<and> randint 100000 999999 (rnd j) \<notin> existing_ids"
proof (induction k arbitrary: i)
  case 0
  then show ?case by (subst taskid_loop.simps) auto
next
  case (Suc k)
  then have "randint 100000 999999 (rnd (Suc i + k)) \<notin> existing_ids" by simp
  from Suc.IH [OF this] obtain j where
    j: "taskid_loop rnd existing_ids (Suc i) = Some (randint 100000 999999 (rnd j))"
      "randint 100000 999999 (rnd j) \<notin> existing_ids" by blast
  show ?case
  proof (cases "randint 100000 999999 (rnd i) \<in> existing_ids")
    case True
    with j show ?thesis by (subst taskid_loop.simps) auto
  next
    case False
    then show ?thesis by (subst taskid_loop.simps) auto
  qed
qed

lemma finite_value_Some: "finite_value n = Some v \<longleftrightarrow> n = Finite v"
  by (cases n) auto

text \<open>
  C3. \<^verbatim>\<open>generate_unique_taskid\<close> does not return an identifier for every task table
  that still has a free value: where the table has rows and a \<^verbatim>\<open>TaskID\<close> column and
  one identifier cell reads as an infinity, line 167 raises, whatever the generator
  draws and whatever the other cells hold.
\<close>

theorem taskid_raises_on_infinity:
  assumes "''TaskID'' \<in> set (columns tasks_df)"
    and "r \<in> set (rows tasks_df)"
    and "to_numeric parse (r ''TaskID'') = NonFinite"
  shows "generate_unique_taskid parse rnd tasks_df = Some (Inl ValueError)"
proof -
  have ne: "\<not> df_empty tasks_df"
    using assms(1,2) by (auto simp: df_empty_def)
  have "NonFinite \<in> set (map (\<lambda>r. to_numeric parse (r ''TaskID'')) (rows tasks_df))"
    using assms(2,3) by force
  with ne assms(1) show ?thesis
    by (simp add: generate_unique_taskid_def)
qed

text \<open>
  The table with the identifiers 100000 and \<^verbatim>\<open>inf\<close>: the value 100001 is free, and
  the call raises.
\<close>

theorem taskid_raises_on_infinity_witness:
  "generate_unique_taskid parse_toy id tasks_inf = Some (Inl ValueError)
   \<and> list_all (\<lambda>r. to_numeric parse_toy (r ''TaskID'') \<noteq> Finite 100001) (rows tasks_inf)"
proof -
  have c: "''TaskID'' \<in> set (columns tasks_inf)"
    by (simp add: tasks_inf_def)
  have r: "row_of [(''TaskID'', Str ''inf''), (''Status'', Str ''-'')] \<in> set (rows tasks_inf)"
    by (simp add: tasks_inf_def)
  have n: "to_numeric parse_toy (row_of [(''TaskID'', Str ''inf''), (''Status'', Str ''-'')] ''TaskID'')
      = NonFinite"
    by (simp add: row_of_def parse_toy_def)
  have free: "list_all (\<lambda>r. to_numeric parse_toy (r ''TaskID'') \<noteq> Finite 100001) (rows tasks_inf)"
    by (simp add: tasks_inf_def row_of_def parse_toy_def)
  from taskid_raises_on_infinity [OF c r n, of id] free show ?thesis by simp
qed

text \<open>
  Where no identifier cell reads as an infinity, the function does what its name says.
  Some value of 100000..999999 is not the number of any \<^verbatim>\<open>TaskID\<close> cell of the
  table, and the generator is fair: every value of the range comes up at some draw (as
  it does, with probability one, for independent uniform draws). Then
  \<^verbatim>\<open>generate_unique_taskid\<close> returns, and its result lies in 100000..999999 and is not
  the number of any \<^verbatim>\<open>TaskID\<close> cell.
\<close>

lemma generated_taskid_fresh:
  assumes fair: "\<forall>v. 100000 \<le> v \<and> v \<le> 999999 \<longrightarrow> (\<exists>i. randint 100000 999999 (rnd i) = v)"
    and free: "\<exists>v. 100000 \<le> v \<and> v \<le> 999999
        \<and> (''TaskID'' \<in> set (columns tasks_df) \<longrightarrow>
             (\<forall>r \<in> set (rows tasks_df). to_numeric parse (r ''TaskID'') \<noteq> Finite v))"
    and finite: "\<forall>r \<in> set (rows tasks_df). to_numeric parse (r ''TaskID'') \<noteq> NonFinite"
  shows "\<exists>new_id. generate_unique_taskid parse rnd tasks_df = Some (Inr new_id)
      \<and> 100000 \<le> new_id \<and> new_id \<le> 999999
      \<and> (''TaskID'' \<in> set (columns tasks_df) \<longrightarrow>
           (\<forall>r \<in> set (rows tasks_df). to_numeric parse (r ''TaskID'') \<noteq> Finite new_id))"
proof (cases "df_empty tasks_df \<or> ''TaskID'' \<notin> set (columns tasks_df)")
  case True
  then have g:
    "generate_unique_taskid parse rnd tasks_df = Some (Inr (randint 100000 999999 (rnd 0)))"
    by (simp add: generate_unique_taskid_def)
  have "''TaskID'' \<in> set (columns tasks_df) \<longrightarrow> rows tasks_df = []"
    using True by (auto simp: df_empty_def)
  with g randint_bounds [of 100000 999999 "rnd 0"] show ?thesis by auto
next
  case False
  define numbers where "numbers = map (\<lambda>r. to_numeric parse (r ''TaskID'')) (rows tasks_df)"
  define existing_ids where "existing_ids = set (List.map_filter finite_value numbers)"
  have ex: "\<And>v. v \<in> existing_ids
      \<longleftrightarrow> (\<exists>r \<in> set (rows tasks_df). to_numeric parse (r ''TaskID'') = Finite v)"
    by (force simp: existing_ids_def numbers_def set_map_filter finite_value_Some)
  have nf: "NonFinite \<notin> set numbers"
    using finite by (auto simp: numbers_def)
  from free False obtain v where v: "100000 \<le> v" "v \<le> 999999" "v \<notin> existing_ids"
    using ex by blast
  from fair v obtain i where "randint 100000 999999 (rnd i) = v" by blast
  with v have "randint 100000 999999 (rnd (0 + i)) \<notin> existing_ids" by simp
  from taskid_loop_finds [of rnd 0 i existing_ids, OF this] obtain j where
    j: "taskid_loop rnd existing_ids 0 = Some (randint 100000 999999 (rnd j))"
       "randint 100000 999999 (rnd j) \<notin> existing_ids" by blast
  have "generate_unique_taskid parse rnd tasks_df = Some (Inr (randint 100000 999999 (rnd j)))"
    using False j(1) nf
    by (simp add: generate_unique_taskid_def existing_ids_def numbers_def)
  with j(2) ex randint_bounds [of 100000 999999 "rnd j"] show ?thesis by auto
qed

lemma fair_id: "\<forall>v. 100000 \<le> v \<and> v \<le> 999999 \<longrightarrow> (\<exists>i. randint 100000 999999 (id i) = v)"
proof (intro allI impI)
  fix v :: int assume v: "100000 \<le> v \<and> v \<le> 999999"
  have "nat (v - 100000) < 900000" using v by linarith
  then have "randint 100000 999999 (nat (v - 100000)) = v"
    using v by (simp add: randint_def)
  then show "\<exists>i. randint 100000 999999 (id i) = v" by auto
qed

text \<open>With the draws 0, 1, 2, ... the identifiers 100000 and 100001 are skipped.\<close>

lemma generated_taskid_fresh_example:
  "generate_unique_taskid parse_toy id tasks_two = Some (Inr 100002)
   \<and> list_all (\<lambda>r. to_numeric parse_toy (r ''TaskID'') \<noteq> Finite 100002) (rows tasks_two)"
proof -
  have free: "\<exists>v. 100000 \<le> v \<and> v \<le> 999999
        \<and> (''TaskID'' \<in> set (columns tasks_two) \<longrightarrow>
             (\<forall>r \<in> set (rows tasks_two). to_numeric parse_toy (r ''TaskID'') \<noteq> Finite v))"
    by (rule exI [of _ 100002]) (simp add: tasks_two_def row_of_def parse_toy_def)
  have finite: "\<forall>r \<in> set (rows tasks_two). to_numeric parse_toy (r ''TaskID'') \<noteq> NonFinite"
    by (simp add: tasks_two_def row_of_def parse_toy_def)
  have col: "''TaskID'' \<in> set (columns tasks_two)"
    by (simp add: tasks_two_def)
  have run: "generate_unique_taskid parse_toy id tasks_two = Some (Inr 100002)"
    by (simp add: generate_unique_taskid_def taskid_loop.simps df_empty_def tasks_two_def
        row_of_def List.map_filter_def randint_def parse_toy_def)
  from generated_taskid_fresh [OF fair_id free finite] col
  obtain new_id where n: "generate_unique_taskid parse_toy id tasks_two = Some (Inr new_id)"
    "\<forall>r \<in> set (rows tasks_two). to_numeric parse_toy (r ''TaskID'') \<noteq> Finite new_id"
    by blast
  from n(1) run have "new_id = 100002" by simp
  with n(2)
  have "\<forall>r \<in> set (rows tasks_two). to_numeric parse_toy (r ''TaskID'') \<noteq> Finite 100002"
    by simp
  with run show ?thesis by (simp add: list_all_iff)
qed

subsection \<open>Registration\<close>

text \<open>
  C6. The member table has a \<^verbatim>\<open>Name\<close> column and a row named \<open>n\<close> (so it is not
  empty). Then \<^verbatim>\<open>register_user\<close> returns \<^verbatim>\<open>(False, "User already exists.")\<close> and
  the workbook, both sheets, is what it was.
\<close>

theorem register_existing_name:
  assumes "''Name'' \<in> set (columns members_df)"
    and "\<exists>r \<in> set (rows members_df). r ''Name'' = Str n"
  shows "\<not> df_empty members_df
    \<and> register_user hash_password parse rnd io wb n password role members_df
        = Some (Inr (False, ''User already exists.''), wb)"
proof -
  from assms(2) have ex: "list_ex (\<lambda>r. py_eq (r ''Name'') (Str n)) (rows members_df)"
    by (simp add: list_ex_iff py_eq_Str)
  have ne: "\<not> df_empty members_df"
    using assms by (auto simp: df_empty_def)
  with assms(1) ex show ?thesis
    by (simp add: register_user_def)
qed

text \<open>Bob is a member already.\<close>

theorem register_existing_name_witness:
  "register_user (\<lambda>p. p) parse_toy id None book ''Bob'' ''pw'' ''Junior Head'' members_plain
     = Some (Inr (False, ''User already exists.''), book)"
  using register_existing_name
    [of members_plain "''Bob''" "\<lambda>p. p" parse_toy id None book "''pw''" "''Junior Head''"]
  by (simp add: members_plain_def mk_member_def row_of_def)

subsection \<open>Visible tasks\<close>

text \<open>
  C7. For a Core Head and a task table with a \<^verbatim>\<open>Role\<close> column, the visible tasks are
  exactly the rows whose stored \<^verbatim>\<open>Role\<close> cell is Core Head or Domain Head, whatever
  the member table says, and they come in the order of the task table.
\<close>

theorem core_head_view:
  assumes "''Role'' \<in> set (columns tasks_df)"
  shows "\<exists>view. view_df user_name (Str ''Core Head'') tasks_df members_df = Inr view
      \<and> columns view = columns tasks_df
      \<and> rows view =
          filter (\<lambda>r. r ''Role'' = Str ''Core Head'' \<or> r ''Role'' = Str ''Domain Head'')
            (rows tasks_df)
      \<and> subseq (rows view) (rows tasks_df)"
  using assms by (simp add: view_df_def select_def isin_def)

text \<open>Alice sees the tasks of Bob and of herself, in table order, not the Junior Head's.\<close>

theorem core_head_view_witness:
  "\<exists>view. view_df (Str ''Alice'') (Str ''Core Head'') tasks_three members_plain = Inr view
     \<and> map (\<lambda>r. r ''TaskID'') (rows view) = [Num 100000, Num 100002]"
proof -
  have "''Role'' \<in> set (columns tasks_three)"
    by (simp add: tasks_three_def tasks_cols_def)
  from core_head_view [OF this, of "Str ''Alice''" members_plain]
  show ?thesis
    by (auto simp: tasks_three_def mk_task_def row_of_def)
qed

subsection \<open>Status updates\<close>

lemma tolist_Inl: "tolist df c = Inl e \<Longrightarrow> e = KeyError"
  by (auto simp: tolist_def split: if_splits)

lemma view_df_Inl: "view_df user_name user_role tasks_df members_df = Inl e \<Longrightarrow> e = KeyError"
  using get_subordinates_total [of user_name members_df]
  by (auto simp: view_df_def Let_def split: if_splits sum.splits)

lemma py_strip_blank: "(\<forall>c \<in> set s. py_isspace c) \<longleftrightarrow> py_strip s = []"
proof
  assume "\<forall>c \<in> set s. py_isspace c"
  then have d: "dropWhile py_isspace s = []" by (rule dropWhile_all)
  show "py_strip s = []" by (simp only: py_strip_def d rev.simps dropWhile.simps)
next
  assume a: "py_strip s = []"
  show "\<forall>c \<in> set s. py_isspace c"
  proof (rule ccontr)
    assume "\<not> (\<forall>c \<in> set s. py_isspace c)"
    then have "dropWhile py_isspace s \<noteq> []" by (simp add: dropWhile_eq_Nil_conv)
    then have "\<not> py_isspace (hd (dropWhile py_isspace s))" by (rule hd_dropWhile)
    moreover have "hd (dropWhile py_isspace s) \<in> set (rev (dropWhile py_isspace s))"
      using \<open>dropWhile py_isspace s \<noteq> []\<close> by simp
    ultimately have "dropWhile py_isspace (rev (dropWhile py_isspace s)) \<noteq> []"
      by (auto simp: dropWhile_eq_Nil_conv)
    with a show False by (simp add: py_strip_def)
  qed
qed

text \<open>
  C2. The completion note is empty or all whitespace and the new status is Done. Then
  the update handler shows the warning and leaves the workbook as it was, for every
  task table and task; and a run of the dashboard with such a submission, for every
  user, role, tables and choice, leaves the workbook as it was and ends in that warning
  (or before the form: a table is empty, no task is offered, or the page raises on a
  missing column or a missing identifier).
\<close>

theorem done_needs_description:
  assumes "\<forall>c \<in> set completion_description. py_isspace c"
  shows "update_status io wb tasks_df task_to_update ''Done'' completion_description
        = (Inr DescriptionRequired, wb)
    \<and> snd (show_dashboard_update io wb user_name user_role tasks_df members_df choice ''Done''
            completion_description) = wb
    \<and> fst (show_dashboard_update io wb user_name user_role tasks_df members_df choice ''Done''
            completion_description)
        \<in> {Inr DescriptionRequired, Inr CannotLoadData, Inr NoTasksAvailable,
           Inl KeyError, Inl IndexError}"
proof -
  from assms have blank: "py_strip completion_description = []"
    by (simp add: py_strip_blank)
  then have u: "\<And>t. update_status io wb tasks_df t ''Done'' completion_description
        = (Inr DescriptionRequired, wb)"
    by (simp add: update_status_def)
  show ?thesis
    by (auto simp: u show_dashboard_update_def Let_def split: sum.splits if_splits
        dest: view_df_Inl tolist_Inl)
qed

text \<open>Bob, a Domain Head, marks his task as done with a note of two spaces.\<close>

theorem done_needs_description_witness:
  "update_status None book tasks_three (Num 100000) ''Done'' ''  ''
      = (Inr DescriptionRequired, book)
   \<and> show_dashboard_update None book (Str ''Bob'') (Str ''Domain Head'') tasks_three
        members_plain 0 ''Done'' ''  '' = (Inr DescriptionRequired, book)"
proof -
  have blank: "\<forall>c \<in> set ''  ''. py_isspace c"
    by (simp add: py_isspace_def)
  have subs: "get_subordinates (Str ''Bob'') members_plain = Inr [Str ''Dee'']"
    by (simp add: get_subordinates_def get_subordinates_try_def members_plain_def mk_member_def
        row_of_def df_empty_def select_def tolist_def py_eq_def)
  define view where "view = tasks_three\<lparr>rows :=
      [mk_task 100000 ''budget'' ''Bob'' ''Domain Head'' ''In Progress'']\<rparr>"
  have v: "view_df (Str ''Bob'') (Str ''Domain Head'') tasks_three members_plain = Inr view"
    by (simp add: view_def view_df_def subs select_def isin_def py_eq_def tasks_three_def
        tasks_cols_def mk_task_def row_of_def)
  have ne: "\<not> df_empty tasks_three" "\<not> df_empty members_plain" "\<not> df_empty view"
    by (simp_all add: view_def df_empty_def tasks_three_def tasks_cols_def members_plain_def)
  have cols: "''Status'' \<in> set (columns view)" "''TaskName'' \<in> set (columns view)"
    by (simp_all add: view_def tasks_three_def tasks_cols_def)
  have opts: "tolist view ''TaskID'' = Inr [Num 100000]"
    by (simp add: view_def tolist_def tasks_three_def tasks_cols_def mk_task_def row_of_def)
  have labels: "list_ex (\<lambda>r. py_eq (r ''TaskID'') (Num 100000)) (rows view)"
    by (simp add: view_def py_eq_def mk_task_def row_of_def)
  have reach: "show_dashboard_update None book (Str ''Bob'') (Str ''Domain Head'') tasks_three
        members_plain 0 ''Done'' ''  ''
      = update_status None book tasks_three (Num 100000) ''Done'' ''  ''"
    by (simp add: show_dashboard_update_def v ne cols opts labels)
  from done_needs_description [OF blank, of None book tasks_three "Num 100000"] reach
  show ?thesis by simp
qed

lemma loc_assign_length: "length (rows (loc_assign keep c v df)) = length (rows df)"
  by (simp add: loc_assign_def)

lemma loc_assign_nth:
  "i < length (rows df) \<Longrightarrow>
    rows (loc_assign keep c v df) ! i =
      (if keep (rows df ! i) then (rows df ! i)(c := v)
       else if c \<in> set (columns df) then rows df ! i
       else (rows df ! i)(c := NaN))"
  by (simp add: loc_assign_def)

lemma loc_assign_columns:
  "columns (loc_assign keep c v df) = (if c \<in> set (columns df) then columns df else columns df @ [c])"
  by (simp add: loc_assign_def)

lemma update_status_success:
  assumes "update_status io f tasks_df task_to_update new_status d = (Inr StatusUpdated, f')"
    and "new_status \<noteq> ''Done''"
  shows "\<exists>wb. f = Some wb \<and> f' = Some (wb\<lparr>tasks_sheet := Some
      (loc_assign (\<lambda>r. py_eq (r ''TaskID'') task_to_update) ''Status'' (Str new_status)
        tasks_df)\<rparr>)"
  using assms
  by (auto simp: update_status_def update_tasks_sheet_def Let_def
      split: if_splits option.splits prod.splits)

text \<open>
  On the tables in memory the update is framed. A status update to a status other than
  Done has succeeded: then the sheet written has the rows of the loaded table
  \<open>tasks_df\<close> in number and order, the \<^verbatim>\<open>Members\<close> sheet is untouched, and in every
  row every cell but the one under \<^verbatim>\<open>Status\<close> is what it was in \<open>tasks_df\<close>; a row
  whose \<^verbatim>\<open>TaskID\<close> is not the selected one keeps every cell of the columns of
  \<open>tasks_df\<close>, and a row whose \<^verbatim>\<open>TaskID\<close> is the selected one has the new status.
  This compares the sheet written with the table as loaded, not with the sheet stored
  before.
\<close>

lemma loaded_table_frame:
  assumes "update_status io f tasks_df task_to_update new_status d = (Inr StatusUpdated, f')"
    and "new_status \<noteq> ''Done''"
  shows "\<exists>wb wb' tasks_df'. f = Some wb \<and> f' = Some wb' \<and> tasks_sheet wb' = Some tasks_df'
    \<and> members_sheet wb' = members_sheet wb
    \<and> length (rows tasks_df') = length (rows tasks_df)
    \<and> set (columns tasks_df') = set (columns tasks_df) \<union> {''Status''}
    \<and> (\<forall>i < length (rows tasks_df).
          (\<forall>c. c \<noteq> ''Status'' \<longrightarrow> (rows tasks_df' ! i) c = (rows tasks_df ! i) c)
        \<and> (rows tasks_df' ! i) ''Description'' = (rows tasks_df ! i) ''Description''
        \<and> (\<not> py_eq ((rows tasks_df ! i) ''TaskID'') task_to_update \<longrightarrow>
             (\<forall>c \<in> set (columns tasks_df). (rows tasks_df' ! i) c = (rows tasks_df ! i) c))
        \<and> (py_eq ((rows tasks_df ! i) ''TaskID'') task_to_update \<longrightarrow>
             (rows tasks_df' ! i) ''Status'' = Str new_status))"
proof -
  define tasks_df' where "tasks_df' =
    loc_assign (\<lambda>r. py_eq (r ''TaskID'') task_to_update) ''Status'' (Str new_status) tasks_df"
  from update_status_success [OF assms]
  obtain wb where wb: "f = Some wb" "f' = Some (wb\<lparr>tasks_sheet := Some tasks_df'\<rparr>)"
    by (auto simp: tasks_df'_def)
  have cols: "set (columns tasks_df') = set (columns tasks_df) \<union> {''Status''}"
    by (auto simp: tasks_df'_def loc_assign_columns)
  have len: "length (rows tasks_df') = length (rows tasks_df)"
    by (simp add: tasks_df'_def loc_assign_length)
  have frame: "(\<forall>c. c \<noteq> ''Status'' \<longrightarrow> (rows tasks_df' ! i) c = (rows tasks_df ! i) c)
        \<and> (rows tasks_df' ! i) ''Description'' = (rows tasks_df ! i) ''Description''
        \<and> (\<not> py_eq ((rows tasks_df ! i) ''TaskID'') task_to_update \<longrightarrow>
             (\<forall>c \<in> set (columns tasks_df). (rows tasks_df' ! i) c = (rows tasks_df ! i) c))
        \<and> (py_eq ((rows tasks_df ! i) ''TaskID'') task_to_update \<longrightarrow>
             (rows tasks_df' ! i) ''Status'' = Str new_status)"
    if "i < length (rows tasks_df)" for i
    using that by (auto simp: tasks_df'_def loc_assign_nth)
  from wb cols len frame show ?thesis by simp
qed

text \<open>
  C10. The frame does not hold for the table in the file. The stored \<^verbatim>\<open>Tasks\<close> sheet
  has two tasks; the note of the second is the text \<^verbatim>\<open>N/A\<close>. Bob, a Domain Head,
  moves the first task to In Progress, and the update succeeds. The page has read the
  text \<^verbatim>\<open>N/A\<close> as a missing value (line 45) and writes the whole table back (line
  467): in the sheet written the note of the second task, which was not selected, is
  blank.
\<close>

theorem status_update_blanks_stored_note:
  "\<exists>written.
      show_dashboard None book_na (Str ''Bob'') (Str ''Domain Head'') 0 ''In Progress'' []
        = (Inr StatusUpdated,
           Some \<lparr>tasks_sheet = Some written, members_sheet = Some members_plain\<rparr>)
    \<and> map (\<lambda>r. r ''TaskID'') (rows tasks_na) = [Num 100000, Num 100001]
    \<and> map (\<lambda>r. r ''TaskID'') (rows written) = [Num 100000, Num 100001]
    \<and> map (\<lambda>r. r ''Status'') (rows written) = [Str ''In Progress'', Str ''Not Started'']
    \<and> map (\<lambda>r. r ''Description'') (rows tasks_na) = [Str ''first draft'', Str ''N/A'']
    \<and> map (\<lambda>r. r ''Description'') (rows written) = [Str ''first draft'', NaN]"
proof -
  define tasks_df where "tasks_df = strip_columns (read_excel tasks_na)"
  define members_df where "members_df = strip_columns (read_excel members_plain)"
  have load: "load_data book_na = (tasks_df, members_df)"
    by (simp add: load_data_def book_na_def tasks_df_def members_df_def)
  have strip: "py_strip ''TaskID'' = ''TaskID''" "py_strip ''TaskName'' = ''TaskName''"
    "py_strip ''AssignedTo'' = ''AssignedTo''" "py_strip ''Role'' = ''Role''"
    "py_strip ''Status'' = ''Status''" "py_strip ''Deadline'' = ''Deadline''"
    "py_strip ''Priority'' = ''Priority''" "py_strip ''Description'' = ''Description''"
    "py_strip ''Name'' = ''Name''"
    by (simp_all add: py_strip_def py_isspace_def)
  have tcols: "columns tasks_df = tasks_cols"
    by (simp add: tasks_df_def strip_columns_def read_excel_def tasks_na_def tasks_cols_def strip)
  have mcols: "columns members_df = [''Name'', ''Role'']"
    by (simp add: members_df_def strip_columns_def read_excel_def members_plain_def strip)
  define t0 where "t0 = rows tasks_df ! 0"
  define t1 where "t1 = rows tasks_df ! 1"
  have "length (rows tasks_df) = 2"
    by (simp add: tasks_df_def strip_columns_def read_excel_def tasks_na_def)
  then have trows: "rows tasks_df = [t0, t1]"
    unfolding t0_def t1_def
    by (cases "rows tasks_df"; cases "tl (rows tasks_df)") auto
  have t0: "t0 ''TaskID'' = Num 100000" "t0 ''AssignedTo'' = Str ''Bob''"
    "t0 ''Status'' = Str ''Not Started''" "t0 ''Description'' = Str ''first draft''"
    by (simp_all add: t0_def tasks_df_def strip_columns_def read_excel_def tasks_na_def
        tasks_cols_def strip mk_task_def row_of_def na_values_def)
  have t1: "t1 ''TaskID'' = Num 100001" "t1 ''AssignedTo'' = Str ''Dee''"
    "t1 ''Status'' = Str ''Not Started''" "t1 ''Description'' = NaN"
    by (simp_all add: t1_def tasks_df_def strip_columns_def read_excel_def tasks_na_def
        tasks_cols_def strip mk_task_def row_of_def na_values_def)
  have stored: "map (\<lambda>r. r ''TaskID'') (rows tasks_na) = [Num 100000, Num 100001]"
    "map (\<lambda>r. r ''Description'') (rows tasks_na) = [Str ''first draft'', Str ''N/A'']"
    by (simp_all add: tasks_na_def mk_task_def row_of_def)
  have members: "members_df = members_plain"
    by (simp add: members_df_def strip_columns_def read_excel_def members_plain_def strip
        mk_member_def row_of_def na_values_def fun_eq_iff)
  have subs: "get_subordinates (Str ''Bob'') members_df = Inr [Str ''Dee'']"
    unfolding members
    by (simp add: get_subordinates_def get_subordinates_try_def members_plain_def mk_member_def
        row_of_def df_empty_def select_def tolist_def py_eq_def)
  have ne: "\<not> df_empty tasks_df" "\<not> df_empty members_df"
    by (simp_all add: df_empty_def trows tcols mcols tasks_cols_def members members_plain_def)
  have v: "view_df (Str ''Bob'') (Str ''Domain Head'') tasks_df members_df = Inr tasks_df"
    by (simp add: view_df_def subs tcols tasks_cols_def select_def trows t0 t1 isin_def py_eq_def)
  have run: "show_dashboard_update None book_na (Str ''Bob'') (Str ''Domain Head'') tasks_df
      members_df 0 ''In Progress'' []
    = update_status None book_na tasks_df (Num 100000) ''In Progress'' []"
    by (simp add: show_dashboard_update_def v ne tcols tasks_cols_def tolist_def trows t0 t1
        py_eq_def)
  define written where "written =
    loc_assign (\<lambda>r. py_eq (r ''TaskID'') (Num 100000)) ''Status'' (Str ''In Progress'') tasks_df"
  have upd: "update_status None book_na tasks_df (Num 100000) ''In Progress'' []
    = (Inr StatusUpdated,
       Some \<lparr>tasks_sheet = Some written, members_sheet = Some members_plain\<rparr>)"
    by (simp add: update_status_def update_tasks_sheet_def book_na_def tcols tasks_cols_def
        written_def)
  have w: "rows written = [t0(''Status'' := Str ''In Progress''), t1]"
    by (simp add: written_def loc_assign_def tcols tasks_cols_def trows t0 t1 py_eq_def)
  have "show_dashboard None book_na (Str ''Bob'') (Str ''Domain Head'') 0 ''In Progress'' []
        = (Inr StatusUpdated,
           Some \<lparr>tasks_sheet = Some written, members_sheet = Some members_plain\<rparr>)"
    by (simp add: show_dashboard_def load run upd)
  with stored w t0 t1 show ?thesis by auto
qed

end
